theory Spec2Isabelle
  imports Complex_Main
begin

section \<open>Python and numpy values\<close>

text \<open>
  Python floats are modelled as \<^typ>\<open>real\<close>: rounding is not part of the model.
  An exception is a value: every function that can raise returns \<open>error + 'a\<close>, with
  \<open>Inl\<close> carrying the exception class and its message.
\<close>

datatype error =
    ValueError string
  | IndexError string
  | AssertionError string

definition zero_size_minimum :: string where
  "zero_size_minimum = ''zero-size array to reduction operation minimum which has no identity''"

definition zero_size_maximum :: string where
  "zero_size_maximum = ''zero-size array to reduction operation maximum which has no identity''"

text \<open>\<open>np.diff\<close> of a one-dimensional array: the differences of neighbours, one element
  shorter than the input, empty for inputs of length 0 and 1.\<close>

fun np_diff :: "real list \<Rightarrow> real list" where
  "np_diff (x # y # zs) = (y - x) # np_diff (y # zs)"
| "np_diff [x] = []"
| "np_diff [] = []"

text \<open>\<open>np.min\<close> and \<open>np.max\<close> of a one-dimensional array raise \<open>ValueError\<close> on an empty
  array.\<close>

fun np_min :: "real list \<Rightarrow> error + real" where
  "np_min [] = Inl (ValueError zero_size_minimum)"
| "np_min (x # xs) = Inr (fold min xs x)"

fun np_max :: "real list \<Rightarrow> error + real" where
  "np_max [] = Inl (ValueError zero_size_maximum)"
| "np_max (x # xs) = Inr (fold max xs x)"

section \<open>Gantry tolerance\<close>

text \<open>
  \<^verbatim>\<open>
  def gantry_tol_from_gantry_angles(gantry_angles):
      min_diff = np.min(np.diff(sorted(gantry_angles)))
      gantry_tol = np.min([min_diff / 2 - 0.1, 3])
      return gantry_tol
  \<close>
\<close>

definition gantry_tol_from_gantry_angles :: "real list \<Rightarrow> error + real" where
  "gantry_tol_from_gantry_angles gantry_angles =
     (case np_min (np_diff (sort gantry_angles)) of
        Inl e \<Rightarrow> Inl e
      | Inr min_diff \<Rightarrow> np_min [min_diff / 2 - 0.1, 3])"

section \<open>Coordinate conversion\<close>

definition and_then :: "error + 'a \<Rightarrow> ('a \<Rightarrow> error + 'b) \<Rightarrow> error + 'b" where
  "and_then m f = (case m of Inl e \<Rightarrow> Inl e | Inr x \<Rightarrow> f x)"

subsection \<open>Boolean-mask indexing\<close>

definition boolean_index_mismatch :: string where
  "boolean_index_mismatch = ''boolean index did not match indexed array along dimension 0''"

text \<open>\<open>arr[sel] = v\<close> with a scalar \<open>v\<close>: numpy raises \<open>IndexError\<close> when the mask and
  the array differ in length.\<close>

definition put_mask_scalar :: "'a list \<Rightarrow> bool list \<Rightarrow> 'a \<Rightarrow> error + 'a list" where
  "put_mask_scalar arr sel v =
     (if length sel \<noteq> length arr then Inl (IndexError boolean_index_mismatch)
      else Inr (map2 (\<lambda>a m. if m then v else a) arr sel))"

text \<open>\<open>arr[sel]\<close>: the selected elements, in order.\<close>

fun get_mask :: "'a list \<Rightarrow> bool list \<Rightarrow> 'a list" where
  "get_mask (a # arr) (m # sel) = (if m then a # get_mask arr sel else get_mask arr sel)"
| "get_mask [] sel = []"
| "get_mask arr [] = []"

text \<open>\<open>arr[sel] = vals\<close>, where \<open>vals\<close> was read through the same mask: the values are
  written to the selected positions in order.\<close>

fun put_mask :: "'a list \<Rightarrow> bool list \<Rightarrow> 'a list \<Rightarrow> 'a list" where
  "put_mask (a # arr) (True # sel) (v # vals) = v # put_mask arr sel vals"
| "put_mask (a # arr) (False # sel) vals = a # put_mask arr sel vals"
| "put_mask arr sel vals = arr"

subsection \<open>Gantry and collimator angles\<close>

text \<open>
  \<^verbatim>\<open>
  def angle_dd2dcm(angle):
      diff = np.append(np.diff(angle), 0)
      movement = (np.empty_like(angle)).astype(str)

      movement[diff > 0] = 'CW'
      movement[diff < 0] = 'CC'
      movement[diff == 0] = 'NONE'

      converted_angle = np.array(angle, copy=False)
      converted_angle[converted_angle < 0] = (
          converted_angle[converted_angle < 0] + 360)

      converted_angle = converted_angle.astype(str).tolist()

      return converted_angle, movement
  \<close>
  The function is modelled in two layers. This one works on the contents of the angle
  array; the layer with the array objects themselves is \<open>angle_dd2dcm_heap\<close> below.
  \<open>str\<close> is numpy's rendering of a number as a string (\<open>astype(str)\<close>); \<open>garbage i\<close>
  is what \<open>np.empty_like(angle).astype(str)\<close> holds at index \<open>i\<close> before it is assigned.
\<close>

definition angle_movement :: "(nat \<Rightarrow> string) \<Rightarrow> real list \<Rightarrow> error + string list" where
  "angle_movement garbage angle =
     (let diff = np_diff angle @ [0];
          movement = map garbage [0..<length angle]
      in and_then (put_mask_scalar movement (map (\<lambda>d. d > 0) diff) ''CW'') (\<lambda>movement.
         and_then (put_mask_scalar movement (map (\<lambda>d. d < 0) diff) ''CC'') (\<lambda>movement.
         put_mask_scalar movement (map (\<lambda>d. d = 0) diff) ''NONE'')))"

text \<open>The tag that the three assignments leave at a position whose forward difference
  is \<open>d\<close>.\<close>

definition direction :: "real \<Rightarrow> string" where
  "direction d = (if d > 0 then ''CW'' else if d < 0 then ''CC'' else ''NONE'')"

definition add_360_where_negative :: "real list \<Rightarrow> real list" where
  "add_360_where_negative converted_angle =
     (let negative = map (\<lambda>a. a < 0) converted_angle
      in put_mask converted_angle negative
           (map (\<lambda>a. a + 360) (get_mask converted_angle negative)))"

definition angle_dd2dcm ::
    "(real \<Rightarrow> 's) \<Rightarrow> (nat \<Rightarrow> string) \<Rightarrow> real list \<Rightarrow> error + ('s list \<times> string list)" where
  "angle_dd2dcm str garbage angle =
     and_then (angle_movement garbage angle) (\<lambda>movement.
       let converted_angle = add_360_where_negative angle;
           converted_angle = map str converted_angle
       in Inr (converted_angle, movement))"

subsection \<open>Jaws\<close>

text \<open>
  An array of shape (N, 2), and the nested list of N two-element rows that \<open>tolist()\<close>
  makes of it, are both a list of N pairs: \<open>fst\<close> is column 0, \<open>snd\<close> is column 1.
\<close>

definition col0 :: "('a \<times> 'a) list \<Rightarrow> 'a list" where
  "col0 m = map fst m"

definition col1 :: "('a \<times> 'a) list \<Rightarrow> 'a list" where
  "col1 m = map snd m"

text \<open>\<open>m[:, 0] = c\<close> and \<open>m[:, 1] = c\<close>, for a column \<open>c\<close> with one entry per row.\<close>

definition set_col0 :: "('a \<times> 'a) list \<Rightarrow> 'a list \<Rightarrow> ('a \<times> 'a) list" where
  "set_col0 m c = map2 (\<lambda>row v. (v, snd row)) m c"

definition set_col1 :: "('a \<times> 'a) list \<Rightarrow> 'a list \<Rightarrow> ('a \<times> 'a) list" where
  "set_col1 m c = map2 (\<lambda>row v. (fst row, v)) m c"

definition astype :: "('a \<Rightarrow> 'b) \<Rightarrow> ('a \<times> 'a) list \<Rightarrow> ('b \<times> 'b) list" where
  "astype str m = map (\<lambda>row. (str (fst row), str (snd row))) m"

text \<open>
  \<^verbatim>\<open>
  def jaw_dd2dcm(jaw):
      jaw = np.array(jaw, copy=True)
      jaw[:, 1] = -jaw[:, 1]

      converted_jaw = jaw.astype(str)
      converted_jaw[:, 1] = jaw.astype(str)[:, 0]
      converted_jaw[:, 0] = jaw.astype(str)[:, 1]
      converted_jaw = converted_jaw.tolist()

      return converted_jaw
  \<close>
\<close>

definition negate_col1 :: "(real \<times> real) list \<Rightarrow> (real \<times> real) list" where
  "negate_col1 jaw = set_col1 jaw (map uminus (col1 jaw))"

definition jaw_dd2dcm :: "(real \<Rightarrow> 's) \<Rightarrow> (real \<times> real) list \<Rightarrow> ('s \<times> 's) list" where
  "jaw_dd2dcm str jaw =
     (let jaw = negate_col1 jaw;
          converted_jaw = astype str jaw;
          converted_jaw = set_col1 converted_jaw (col0 (astype str jaw));
          converted_jaw = set_col0 converted_jaw (col1 (astype str jaw))
      in converted_jaw)"

subsection \<open>Multi-leaf collimator\<close>

text \<open>
  \<^verbatim>\<open>
  def mlc_dd2dcm(mlc):
      mlc = np.array(mlc, copy=False)

      dicom_mlc_format = []
      for control_point in mlc:
          concatenated = np.hstack(
              [-control_point[-1::-1, 1], control_point[-1::-1, 0]])
          dicom_mlc_format.append(concatenated.astype(str).tolist())

      return dicom_mlc_format
  \<close>
  The source indexes a control point as \<open>control_point[leaf, bank]\<close>: an array of shape
  (L, 2) whose row \<open>i\<close> holds the positions of leaf pair \<open>i\<close> in bank A (column 0) and
  bank B (column 1). The slice \<open>[-1::-1]\<close> is the whole axis in reverse.
\<close>

fun mlc_loop :: "(real \<Rightarrow> 's) \<Rightarrow> 's list list \<Rightarrow> (real \<times> real) list list \<Rightarrow> 's list list" where
  "mlc_loop str dicom_mlc_format [] = dicom_mlc_format"
| "mlc_loop str dicom_mlc_format (control_point # rest) =
     (let concatenated = map uminus (rev (col1 control_point)) @ rev (col0 control_point)
      in mlc_loop str (dicom_mlc_format @ [map str concatenated]) rest)"

definition mlc_dd2dcm :: "(real \<Rightarrow> 's) \<Rightarrow> (real \<times> real) list list \<Rightarrow> 's list list" where
  "mlc_dd2dcm str mlc = mlc_loop str [] mlc"

text \<open>
  The same function on control points of any shape. A two-dimensional array is the list
  of its rows; \<open>control_point[-1::-1, k]\<close> reads entry \<open>k\<close> of every row, last row
  first, and raises \<open>IndexError\<close> when the rows have no entry \<open>k\<close>. \<open>np.hstack\<close> joins
  the two one-dimensional results end to end.
\<close>

definition index_out_of_bounds :: string where
  "index_out_of_bounds = ''index is out of bounds for axis 1''"

definition reversed_column :: "nat \<Rightarrow> 'a list list \<Rightarrow> error + 'a list" where
  "reversed_column k control_point =
     (if list_all (\<lambda>row. k < length row) control_point
      then Inr (map (\<lambda>row. row ! k) (rev control_point))
      else Inl (IndexError index_out_of_bounds))"

fun mlc_rows_loop :: "(real \<Rightarrow> 's) \<Rightarrow> 's list list \<Rightarrow> real list list list \<Rightarrow> error + 's list list" where
  "mlc_rows_loop str dicom_mlc_format [] = Inr dicom_mlc_format"
| "mlc_rows_loop str dicom_mlc_format (control_point # rest) =
     and_then (reversed_column 1 control_point) (\<lambda>column_1.
     and_then (reversed_column 0 control_point) (\<lambda>column_0.
     let concatenated = map uminus column_1 @ column_0
     in mlc_rows_loop str (dicom_mlc_format @ [map str concatenated]) rest))"

definition mlc_dd2dcm_rows :: "(real \<Rightarrow> 's) \<Rightarrow> real list list list \<Rightarrow> error + 's list list" where
  "mlc_dd2dcm_rows str mlc = mlc_rows_loop str [] mlc"

section \<open>Array objects and aliasing\<close>

text \<open>
  A caller may pass its data as a numpy array, which the conversion functions reach by
  reference, or as a Python list or tuple, which numpy copies into a new array. The
  heap holds the contents of the array objects that can be the caller's; a new array
  takes the next free address. Arrays that the source builds from results of numpy
  operations (\<open>np.diff\<close>, \<open>astype\<close>, unary minus, \<open>np.hstack\<close>) are new objects that
  never share memory with the argument: they stay plain values.
\<close>

record 'a heap =
  cells :: "nat \<Rightarrow> 'a"
  next_free :: nat

datatype 'a arg = NdArray nat | PySeq 'a

definition read_arg :: "'a heap \<Rightarrow> 'a arg \<Rightarrow> 'a" where
  "read_arg h x = (case x of NdArray p \<Rightarrow> cells h p | PySeq v \<Rightarrow> v)"

definition alloc :: "'a heap \<Rightarrow> 'a \<Rightarrow> nat \<times> 'a heap" where
  "alloc h v =
     (next_free h, h\<lparr>cells := (cells h)(next_free h := v), next_free := Suc (next_free h)\<rparr>)"

definition store :: "'a heap \<Rightarrow> nat \<Rightarrow> 'a \<Rightarrow> 'a heap" where
  "store h p v = h\<lparr>cells := (cells h)(p := v)\<rparr>"

text \<open>
  \<open>np.array(x, copy=c)\<close> as numpy 1.x has it: an array passed with \<open>copy=False\<close> is
  returned as the same object; with \<open>copy=True\<close>, or for a list or tuple, the result is a
  new array with the same contents.
\<close>

definition np_array :: "bool \<Rightarrow> 'a heap \<Rightarrow> 'a arg \<Rightarrow> nat \<times> 'a heap" where
  "np_array copy h x =
     (case x of
        NdArray p \<Rightarrow> if copy then alloc h (cells h p) else (p, h)
      | PySeq v \<Rightarrow> alloc h v)"

text \<open>
  \<open>angle_dd2dcm\<close> on array objects. The movement is computed from the argument as it
  is on entry; then \<open>converted_angle = np.array(angle, copy=False)\<close> names an array
  object and the masked assignment writes into that object.
\<close>

definition angle_dd2dcm_heap ::
    "(real \<Rightarrow> 's) \<Rightarrow> (nat \<Rightarrow> string) \<Rightarrow> real list heap \<Rightarrow> real list arg \<Rightarrow>
     (error + ('s list \<times> string list)) \<times> real list heap" where
  "angle_dd2dcm_heap str garbage h angle =
     (case angle_movement garbage (read_arg h angle) of
        Inl e \<Rightarrow> (Inl e, h)
      | Inr movement \<Rightarrow>
          (let (converted_angle, h) = np_array False h angle;
               h = store h converted_angle (add_360_where_negative (cells h converted_angle));
               result = map str (cells h converted_angle)
           in (Inr (result, movement), h)))"

definition too_many_indices :: string where
  "too_many_indices = ''too many indices for array''"

text \<open>
  \<open>jaw_dd2dcm\<close> on array objects: \<open>jaw = np.array(jaw, copy=True)\<close> is always a new
  object, and the negation of column 1 writes into it. An empty list or tuple becomes an
  array of shape (0,), which \<open>jaw[:, 1]\<close> cannot index.
\<close>

definition jaw_dd2dcm_heap ::
    "(real \<Rightarrow> 's) \<Rightarrow> (real \<times> real) list heap \<Rightarrow> (real \<times> real) list arg \<Rightarrow>
     (error + ('s \<times> 's) list) \<times> (real \<times> real) list heap" where
  "jaw_dd2dcm_heap str h jaw =
     (let (jaw', h) = np_array True h jaw
      in if jaw = PySeq [] then (Inl (IndexError too_many_indices), h)
         else
           (let h = store h jaw' (negate_col1 (cells h jaw'));
                converted_jaw = astype str (cells h jaw');
                converted_jaw = set_col1 converted_jaw (col0 (astype str (cells h jaw')));
                converted_jaw = set_col0 converted_jaw (col1 (astype str (cells h jaw')))
            in (Inr converted_jaw, h)))"

text \<open>
  \<open>mlc_dd2dcm\<close> on array objects: \<open>mlc = np.array(mlc, copy=False)\<close> may be the
  caller's array, which the loop only reads.
\<close>

definition mlc_dd2dcm_heap ::
    "(real \<Rightarrow> 's) \<Rightarrow> (real \<times> real) list list heap \<Rightarrow> (real \<times> real) list list arg \<Rightarrow>
     's list list \<times> (real \<times> real) list list heap" where
  "mlc_dd2dcm_heap str h mlc =
     (let (mlc', h) = np_array False h mlc
      in (mlc_loop str [] (cells h mlc'), h))"

text \<open>A caller holding one angle array, at address 0, with a negative entry.\<close>

definition caller_heap :: "real list heap" where
  "caller_heap = \<lparr>cells = (\<lambda>p. if p = 0 then [- 10, 10] else []), next_free = 1\<rparr>"

section \<open>Delivery data and the template plan\<close>

text \<open>
  The delivery data is a tuple of five index-aligned sequences. The fields carry the
  prefix \<open>dd_\<close>; the source's names are \<open>monitor_units\<close>, \<open>gantry\<close>, \<open>collimator\<close>,
  \<open>mlc\<close> and \<open>jaw\<close>.
\<close>

record delivery_data =
  dd_monitor_units :: "real list"
  dd_gantry :: "real list"
  dd_collimator :: "real list"
  dd_mlc :: "(real \<times> real) list list"
  dd_jaw :: "(real \<times> real) list"

text \<open>Modelled from the spec: \<open>DeliveryDataBase.empty()\<close> of \<open>pymedphys_base\<close>, the
  delivery data with every sequence empty.\<close>

definition DeliveryDataBase_empty :: delivery_data where
  "DeliveryDataBase_empty =
     \<lparr>dd_monitor_units = [], dd_gantry = [], dd_collimator = [], dd_mlc = [], dd_jaw = []\<rparr>"

text \<open>
  What \<open>determine_fraction_group_number\<close> hands to \<open>get_metersets_from_delivery_data\<close>:
  the tuple of per-beam delivery data that the masking returned, or the single empty
  delivery data that replaces it after an \<open>AssertionError\<close>.
\<close>

datatype masked = PerBeam "delivery_data list" | Whole delivery_data

text \<open>A fraction group number as Python passes it around: \<open>None\<close>, an integer, or a
  numpy array of integers.\<close>

datatype fgnum = PyNone | Scalar int | NpArray "int list"

text \<open>The dictionary that \<open>coordinate_convert_delivery_data\<close> returns.\<close>

record 's converted =
  conv_monitor_units :: "real list"
  conv_mlc :: "'s list list"
  conv_jaw :: "('s \<times> 's) list"
  gantry_angle :: "'s list"
  gantry_movement :: "string list"
  collimator_angle :: "'s list"
  collimator_movement :: "string list"

text \<open>
  The functions that the source imports from \<open>pymedphys_dicom.rtplan\<close> and from
  \<open>..utilities\<close>, the attributes it reads from the pydicom dataset, and the string
  renderings of numbers, are parameters: \<open>'t\<close> is the plan dataset, \<open>'g\<close> a fraction
  group, \<open>'b\<close> a beam, \<open>'cp\<close> a control point and \<open>'s\<close> the text of a number. A
  function that changes its dataset argument in place returns the changed dataset.
\<close>

record ('t, 'g, 'b, 'cp, 's) collaborators =
  FractionGroupSequence :: "'t \<Rightarrow> 'g list"
  FractionGroupNumber :: "'g \<Rightarrow> int"
  BeamSequence :: "'t \<Rightarrow> 'b list"
  ControlPointSequence :: "'b \<Rightarrow> 'cp list"
  get_gantry_angles_from_dicom :: "'t \<Rightarrow> error + real list"
  build_control_points :: "'cp \<Rightarrow> 'cp \<Rightarrow> 's converted \<Rightarrow> error + 'cp list"
  replace_fraction_group :: "'t \<Rightarrow> 's \<Rightarrow> nat \<Rightarrow> nat \<Rightarrow> error + 't"
  replace_beam_sequence :: "'t \<Rightarrow> 'cp list \<Rightarrow> nat \<Rightarrow> error + 't"
  restore_trailing_zeros :: "'t \<Rightarrow> error + 't"
  merge_beam_sequences :: "'t list \<Rightarrow> error + 't"
  get_fraction_group_index :: "'t \<Rightarrow> fgnum \<Rightarrow> error + nat"
  convert_to_one_fraction_group :: "'t \<Rightarrow> fgnum \<Rightarrow> error + 't"
  get_fraction_group_beam_sequence_and_meterset :: "'t \<Rightarrow> fgnum \<Rightarrow> error + ('b list \<times> real list)"
  filter_out_irrelevant_control_points :: "delivery_data \<Rightarrow> error + delivery_data"
  get_all_masked_delivery_data ::
    "delivery_data \<Rightarrow> real list \<Rightarrow> real \<Rightarrow> bool \<Rightarrow> error + delivery_data list"
  get_metersets_from_delivery_data :: "masked \<Rightarrow> error + real list"
  astype_str :: "real \<Rightarrow> 's"
  format_6f :: "real \<Rightarrow> 's"
  empty_like_str :: "nat \<Rightarrow> string"

subsection \<open>Python lists\<close>

definition list_index_out_of_range :: string where
  "list_index_out_of_range = ''list index out of range''"

definition py_index :: "'a list \<Rightarrow> nat \<Rightarrow> error + 'a" where
  "py_index xs i = (if i < length xs then Inr (xs ! i) else Inl (IndexError list_index_out_of_range))"

text \<open>\<open>xs[-1]\<close>\<close>

definition py_last :: "'a list \<Rightarrow> error + 'a" where
  "py_last xs = (if xs = [] then Inl (IndexError list_index_out_of_range) else Inr (last xs))"

text \<open>A list comprehension, or a loop that appends one result per element: the first
  exception ends it.\<close>

fun map_error :: "('a \<Rightarrow> error + 'b) \<Rightarrow> 'a list \<Rightarrow> error + 'b list" where
  "map_error f [] = Inr []"
| "map_error f (x # xs) =
     and_then (f x) (\<lambda>y. and_then (map_error f xs) (\<lambda>ys. Inr (y # ys)))"

subsection \<open>Resolving the fraction group\<close>

definition operands_could_not_be_broadcast :: string where
  "operands_could_not_be_broadcast = ''operands could not be broadcast together''"

text \<open>\<open>np.array(xs) - np.array(ys)\<close> for one-dimensional arrays: elementwise when the
  lengths agree, an array of length one is stretched to the other's length, and any
  other pair of lengths raises \<open>ValueError\<close>.\<close>

definition np_subtract :: "real list \<Rightarrow> real list \<Rightarrow> error + real list" where
  "np_subtract xs ys =
     (if length xs = length ys then Inr (map2 (-) xs ys)
      else if length xs = 1 then Inr (map (\<lambda>y. hd xs - y) ys)
      else if length ys = 1 then Inr (map (\<lambda>x. x - hd ys) xs)
      else Inl (ValueError operands_could_not_be_broadcast))"

text \<open>\<open>np.sum\<close> of a boolean array counts its true entries.\<close>

definition np_sum :: "bool list \<Rightarrow> nat" where
  "np_sum bs = length (filter (\<lambda>b. b) bs)"

definition not_found_message :: string where
  "not_found_message =
     ''A fraction group was not able to be found with the metersets '' @
     ''and gantry angles defined by the tolerances provided. '' @
     ''Please manually define the fraction group number.''"

definition ambiguous_message :: string where
  "ambiguous_message =
     ''More than one fraction group was found that had metersets '' @
     ''and gantry angles within the tolerances provided. '' @
     ''Please manually define the fraction group number.''"

text \<open>
  \<^verbatim>\<open>
      try:
          masked = get_all_masked_delivery_data(
              delivery_data, gantry_angles, gantry_tol, quiet=True)
      except AssertionError:
          masked = DeliveryDataBase.empty()
  \<close>
\<close>

definition mask_or_empty ::
    "('t, 'g, 'b, 'cp, 's) collaborators \<Rightarrow> delivery_data \<Rightarrow> real list \<times> real \<Rightarrow> error + masked" where
  "mask_or_empty env delivery_data p =
     (case get_all_masked_delivery_data env delivery_data (fst p) (snd p) True of
        Inl (AssertionError m) \<Rightarrow> Inr (Whole DeliveryDataBase_empty)
      | Inl e \<Rightarrow> Inl e
      | Inr masked \<Rightarrow> Inr (PerBeam masked))"

text \<open>
  \<^verbatim>\<open>
      maximmum_diff = np.max(np.abs(
          np.array(dicom_metersets) - np.array(delivery_data_metersets)))
  \<close>
\<close>

definition maximum_deviation :: "real list \<times> real list \<Rightarrow> error + real" where
  "maximum_deviation p =
     and_then (np_subtract (fst p) (snd p)) (\<lambda>diff. np_max (map abs diff))"

text \<open>Lines 144 to 161 of the source: the choice among the candidates.\<close>

definition choose_within_tol :: "int list \<Rightarrow> real list \<Rightarrow> real \<Rightarrow> error + fgnum" where
  "choose_within_tol fraction_group_numbers maximum_deviations meterset_tol =
     (let deviations_within_tol = map (\<lambda>d. d \<le> meterset_tol) maximum_deviations
      in if np_sum deviations_within_tol < 1 then Inl (ValueError not_found_message)
         else if np_sum deviations_within_tol > 1 then Inl (ValueError ambiguous_message)
         else Inr (NpArray (get_mask fraction_group_numbers deviations_within_tol)))"

text \<open>
  \<open>determine_fraction_group_number(delivery_data, dicom_template, gantry_tol=None,
  meterset_tol=0.5)\<close>, lines 82 to 161 of the source.
\<close>

definition determine_fraction_group_number ::
    "('t, 'g, 'b, 'cp, 's) collaborators \<Rightarrow> delivery_data \<Rightarrow> 't \<Rightarrow> real option \<Rightarrow> real \<Rightarrow>
     error + fgnum" where
  "determine_fraction_group_number env delivery_data dicom_template gantry_tol meterset_tol =
     (let fraction_groups = FractionGroupSequence env dicom_template
      in if length fraction_groups = 1
         then Inr (Scalar (FractionGroupNumber env (fraction_groups ! 0)))
         else
           (let fraction_group_numbers = map (FractionGroupNumber env) fraction_groups
            in and_then (map_error
                  (\<lambda>fraction_group_number.
                     and_then (get_fraction_group_beam_sequence_and_meterset env
                                 dicom_template (Scalar fraction_group_number))
                       (\<lambda>r. Inr (snd r)))
                  fraction_group_numbers) (\<lambda>dicom_metersets_by_fraction_group.
               and_then (map_error
                  (\<lambda>fraction_group_number.
                     convert_to_one_fraction_group env dicom_template
                       (Scalar fraction_group_number))
                  fraction_group_numbers) (\<lambda>split_by_fraction_group.
               and_then (map_error (get_gantry_angles_from_dicom env)
                  split_by_fraction_group) (\<lambda>gantry_angles_by_fraction_group.
               and_then (map_error
                  (\<lambda>gantry_angles.
                     case gantry_tol of
                       None \<Rightarrow> gantry_tol_from_gantry_angles gantry_angles
                     | Some tol \<Rightarrow> Inr tol)
                  gantry_angles_by_fraction_group) (\<lambda>gantry_tolerances.
               and_then (map_error (mask_or_empty env delivery_data)
                  (zip gantry_angles_by_fraction_group gantry_tolerances))
                  (\<lambda>masked_delivery_data_by_fraction_group.
               and_then (map_error (get_metersets_from_delivery_data env)
                  masked_delivery_data_by_fraction_group)
                  (\<lambda>deliver_data_metersets_by_fraction_group.
               and_then (map_error maximum_deviation
                  (zip dicom_metersets_by_fraction_group
                     deliver_data_metersets_by_fraction_group)) (\<lambda>maximum_deviations.
               choose_within_tol fraction_group_numbers maximum_deviations
                 meterset_tol)))))))))"

subsection \<open>Building the plan\<close>

text \<open>\<open>coordinate_convert_delivery_data\<close>, lines 188 to 204.\<close>

definition coordinate_convert_delivery_data ::
    "('t, 'g, 'b, 'cp, 's) collaborators \<Rightarrow> delivery_data \<Rightarrow> error + 's converted" where
  "coordinate_convert_delivery_data env delivery_data =
     (let monitor_units = dd_monitor_units delivery_data;
          mlc = mlc_dd2dcm (astype_str env) (dd_mlc delivery_data);
          jaw = jaw_dd2dcm (astype_str env) (dd_jaw delivery_data)
      in and_then (angle_dd2dcm (astype_str env) (empty_like_str env) (dd_gantry delivery_data))
           (\<lambda>g.
         and_then (angle_dd2dcm (astype_str env) (empty_like_str env)
                     (dd_collimator delivery_data))
           (\<lambda>c.
         Inr \<lparr>conv_monitor_units = monitor_units, conv_mlc = mlc, conv_jaw = jaw,
              gantry_angle = fst g, gantry_movement = snd g,
              collimator_angle = fst c, collimator_movement = snd c\<rparr>)))"

text \<open>
  \<open>delivery_data_to_dicom_single_beam\<close>, lines 164 to 185. \<open>created_dicom\<close> is a deep
  copy of the template; the three calls that change it in place are threaded through.
\<close>

definition delivery_data_to_dicom_single_beam ::
    "('t, 'g, 'b, 'cp, 's) collaborators \<Rightarrow> delivery_data \<Rightarrow> 't \<Rightarrow> nat \<Rightarrow> nat \<Rightarrow> error + 't" where
  "delivery_data_to_dicom_single_beam env delivery_data dicom_template beam_index
       fraction_group_index =
     (let created_dicom = dicom_template
      in and_then (coordinate_convert_delivery_data env delivery_data) (\<lambda>data_converted.
         and_then (py_index (BeamSequence env created_dicom) beam_index) (\<lambda>beam.
         let cp_sequence = ControlPointSequence env beam
         in and_then (py_index cp_sequence 0) (\<lambda>initial_cp.
            and_then (py_last cp_sequence) (\<lambda>subsequent_cp.
            and_then (build_control_points env initial_cp subsequent_cp data_converted)
              (\<lambda>all_control_points.
            and_then (py_last (conv_monitor_units data_converted)) (\<lambda>last_monitor_units.
            let beam_meterset = format_6f env last_monitor_units
            in and_then (replace_fraction_group env created_dicom beam_meterset beam_index
                           fraction_group_index) (\<lambda>created_dicom.
               and_then (replace_beam_sequence env created_dicom all_control_points
                           beam_index) (\<lambda>created_dicom.
               restore_trailing_zeros env created_dicom)))))))))"

text \<open>
  \<open>delivery_data_to_dicom(delivery_data, dicom_template, fraction_group_number=None)\<close>,
  lines 52 to 79. The source begins
  \<^verbatim>\<open>
      if fraction_group_number is None:
          pass
  \<close>
  which does nothing: \<open>fraction_group_number\<close> goes to \<open>convert_to_one_fraction_group\<close>
  and to \<open>get_fraction_group_index\<close> as it was passed.
\<close>

definition delivery_data_to_dicom ::
    "('t, 'g, 'b, 'cp, 's) collaborators \<Rightarrow> delivery_data \<Rightarrow> 't \<Rightarrow> fgnum \<Rightarrow> error + 't" where
  "delivery_data_to_dicom env delivery_data dicom_template fraction_group_number =
     and_then (convert_to_one_fraction_group env dicom_template fraction_group_number)
       (\<lambda>single_fraction_group_template.
     and_then (filter_out_irrelevant_control_points env delivery_data) (\<lambda>delivery_data.
     and_then (get_gantry_angles_from_dicom env single_fraction_group_template)
       (\<lambda>template_gantry_angles.
     and_then (gantry_tol_from_gantry_angles template_gantry_angles) (\<lambda>gantry_tol.
     and_then (get_all_masked_delivery_data env delivery_data template_gantry_angles
                 gantry_tol False) (\<lambda>all_masked_delivery_data.
     and_then (get_fraction_group_index env single_fraction_group_template
                 fraction_group_number) (\<lambda>fraction_group_index.
     and_then (map_error
                 (\<lambda>p. delivery_data_to_dicom_single_beam env (snd p)
                        single_fraction_group_template (fst p) fraction_group_index)
                 (enumerate 0 all_masked_delivery_data)) (\<lambda>single_beam_dicoms.
     merge_beam_sequences env single_beam_dicoms)))))))"

section \<open>A concrete plan and its collaborators\<close>

text \<open>
  Modelled from the spec: the plan dataset and the functions of \<open>pymedphys_dicom.rtplan\<close>
  and \<open>..utilities\<close>, none of which is among the sources. They follow sections 3, 4.2,
  4.3, 4.4 and 4.5 of the specification and serve to run the source's functions on
  concrete inputs. A control point is a pair of cumulative meterset and gantry angle, a
  beam is its control point sequence, and a fraction group holds its number and, per
  referenced beam, the beam's index in the beam sequence and its target meterset. The
  text of a number is the number itself.
\<close>

record plan_group =
  number :: int
  referenced :: "(nat \<times> real) list"

record plan =
  groups :: "plan_group list"
  beams :: "(real \<times> real) list list"

definition is_not_in_list :: string where
  "is_not_in_list = ''fraction group number is not in list''"

fun index_of :: "int \<Rightarrow> int list \<Rightarrow> nat option" where
  "index_of n [] = None"
| "index_of n (m # ms) = (if n = m then Some 0 else map_option Suc (index_of n ms))"

definition plan_fraction_group_index :: "plan \<Rightarrow> fgnum \<Rightarrow> error + nat" where
  "plan_fraction_group_index t fg =
     (case fg of
        Scalar n \<Rightarrow>
          (case index_of n (map number (groups t)) of
             Some i \<Rightarrow> Inr i
           | None \<Rightarrow> Inl (ValueError is_not_in_list))
      | PyNone \<Rightarrow> Inl (ValueError is_not_in_list)
      | NpArray ns \<Rightarrow> Inl (ValueError is_not_in_list))"

definition plan_beam_sequence_and_meterset ::
    "plan \<Rightarrow> fgnum \<Rightarrow> error + ((real \<times> real) list list \<times> real list)" where
  "plan_beam_sequence_and_meterset t fg =
     and_then (plan_fraction_group_index t fg) (\<lambda>i.
     and_then (map_error (\<lambda>r. py_index (beams t) (fst r)) (referenced (groups t ! i))) (\<lambda>bs.
     Inr (bs, map snd (referenced (groups t ! i)))))"

definition plan_convert_to_one_fraction_group :: "plan \<Rightarrow> fgnum \<Rightarrow> error + plan" where
  "plan_convert_to_one_fraction_group t fg =
     and_then (plan_beam_sequence_and_meterset t fg) (\<lambda>r.
     and_then (plan_fraction_group_index t fg) (\<lambda>i.
     Inr \<lparr>groups = [(groups t ! i)\<lparr>referenced := zip [0..<length (fst r)] (snd r)\<rparr>],
          beams = fst r\<rparr>))"

definition plan_gantry_angles :: "plan \<Rightarrow> error + real list" where
  "plan_gantry_angles t =
     map_error (\<lambda>cps. and_then (py_index cps 0) (\<lambda>cp. Inr (snd cp))) (beams t)"

text \<open>Section 4.2: the samples whose gantry angle lies within the tolerance of the
  beam's angle; no sample for some beam is the failure that the source catches.\<close>

definition no_matching_samples :: string where
  "no_matching_samples = ''no matching samples''"

definition apply_mask :: "delivery_data \<Rightarrow> bool list \<Rightarrow> delivery_data" where
  "apply_mask d sel =
     \<lparr>dd_monitor_units = get_mask (dd_monitor_units d) sel,
      dd_gantry = get_mask (dd_gantry d) sel,
      dd_collimator = get_mask (dd_collimator d) sel,
      dd_mlc = get_mask (dd_mlc d) sel,
      dd_jaw = get_mask (dd_jaw d) sel\<rparr>"

definition mask_for_beam :: "delivery_data \<Rightarrow> real \<Rightarrow> real \<Rightarrow> error + delivery_data" where
  "mask_for_beam d target_angle tol =
     (let sel = map (\<lambda>g. \<bar>g - target_angle\<bar> \<le> tol) (dd_gantry d)
      in if np_sum sel = 0 then Inl (AssertionError no_matching_samples)
         else Inr (apply_mask d sel))"

definition plan_all_masked ::
    "delivery_data \<Rightarrow> real list \<Rightarrow> real \<Rightarrow> bool \<Rightarrow> error + delivery_data list" where
  "plan_all_masked d gantry_angles tol quiet =
     map_error (\<lambda>a. mask_for_beam d a tol) gantry_angles"

text \<open>Section 4.3: the delivered meterset of a beam is the last cumulative monitor
  unit value of its masked subset; after a masking failure there are no metersets.\<close>

definition plan_metersets :: "masked \<Rightarrow> error + real list" where
  "plan_metersets m =
     (case m of
        PerBeam ds \<Rightarrow> map_error (\<lambda>d. py_last (dd_monitor_units d)) ds
      | Whole d \<Rightarrow> Inr [])"

definition plan_build_control_points ::
    "real \<times> real \<Rightarrow> real \<times> real \<Rightarrow> real converted \<Rightarrow> error + (real \<times> real) list" where
  "plan_build_control_points initial_cp subsequent_cp data =
     Inr (zip (conv_monitor_units data) (gantry_angle data))"

definition plan_replace_fraction_group :: "plan \<Rightarrow> real \<Rightarrow> nat \<Rightarrow> nat \<Rightarrow> error + plan" where
  "plan_replace_fraction_group t beam_meterset beam_index fraction_group_index =
     and_then (py_index (groups t) fraction_group_index) (\<lambda>g.
     and_then (py_index (referenced g) beam_index) (\<lambda>r.
     Inr (t\<lparr>groups := (groups t)[fraction_group_index :=
            g\<lparr>referenced := (referenced g)[beam_index := (fst r, beam_meterset)]\<rparr>]\<rparr>)))"

definition plan_replace_beam_sequence :: "plan \<Rightarrow> (real \<times> real) list \<Rightarrow> nat \<Rightarrow> error + plan" where
  "plan_replace_beam_sequence t cps beam_index =
     and_then (py_index (beams t) beam_index) (\<lambda>b.
     Inr (t\<lparr>beams := (beams t)[beam_index := cps]\<rparr>))"

text \<open>Section 4.5: fragment \<open>i\<close> contributes beam \<open>i\<close> and that beam's meterset.\<close>

definition plan_merge :: "plan list \<Rightarrow> error + plan" where
  "plan_merge ts =
     and_then (py_index ts 0) (\<lambda>t0.
     and_then (py_index (groups t0) 0) (\<lambda>g0.
     and_then (map_error (\<lambda>p. py_index (beams (snd p)) (fst p)) (enumerate 0 ts)) (\<lambda>bs.
     and_then (map_error
        (\<lambda>p. and_then (py_index (groups (snd p)) 0) (\<lambda>g. py_index (referenced g) (fst p)))
        (enumerate 0 ts)) (\<lambda>rs.
     Inr \<lparr>groups = [g0\<lparr>referenced := rs\<rparr>], beams = bs\<rparr>))))"

definition plan_collaborators ::
    "(plan, plan_group, (real \<times> real) list, real \<times> real, real) collaborators" where
  "plan_collaborators =
     \<lparr>FractionGroupSequence = groups,
      FractionGroupNumber = number,
      BeamSequence = beams,
      ControlPointSequence = (\<lambda>b. b),
      get_gantry_angles_from_dicom = plan_gantry_angles,
      build_control_points = plan_build_control_points,
      replace_fraction_group = plan_replace_fraction_group,
      replace_beam_sequence = plan_replace_beam_sequence,
      restore_trailing_zeros = Inr,
      merge_beam_sequences = plan_merge,
      get_fraction_group_index = plan_fraction_group_index,
      convert_to_one_fraction_group = plan_convert_to_one_fraction_group,
      get_fraction_group_beam_sequence_and_meterset = plan_beam_sequence_and_meterset,
      filter_out_irrelevant_control_points = Inr,
      get_all_masked_delivery_data = plan_all_masked,
      get_metersets_from_delivery_data = plan_metersets,
      astype_str = (\<lambda>x. x),
      format_6f = (\<lambda>x. x),
      empty_like_str = (\<lambda>i. ''?'')\<rparr>"

text \<open>
  A template with four beams, at gantry angles 0, 90, 180 and 270, each with an initial
  and a final control point. Fraction group 1 references the beams at 0 and 90 with
  target metersets 100 and 200; fraction group 2 references the beams at 180 and 270
  with target metersets 250 and 375.
\<close>

definition two_group_template :: plan where
  "two_group_template =
     \<lparr>groups = [\<lparr>number = 1, referenced = [(0, 100), (1, 200)]\<rparr>,
                \<lparr>number = 2, referenced = [(2, 250), (3, 375)]\<rparr>],
      beams = [[(0, 0), (1, 0)], [(0, 90), (1, 90)], [(0, 180), (1, 180)], [(0, 270), (1, 270)]]\<rparr>"

text \<open>The same beams at 0 and 90 in a template with fraction group 1 alone.\<close>

definition one_group_template :: plan where
  "one_group_template =
     \<lparr>groups = [\<lparr>number = 1, referenced = [(0, 100), (1, 200)]\<rparr>],
      beams = [[(0, 0), (1, 0)], [(0, 90), (1, 90)]]\<rparr>"

definition sample :: "real \<Rightarrow> real \<Rightarrow> delivery_data \<Rightarrow> delivery_data" where
  "sample mu g d =
     \<lparr>dd_monitor_units = mu # dd_monitor_units d,
      dd_gantry = g # dd_gantry d,
      dd_collimator = 0 # dd_collimator d,
      dd_mlc = [(- 1, 1)] # dd_mlc d,
      dd_jaw = (2, 3) # dd_jaw d\<rparr>"

text \<open>A delivery at gantry 0 and 90 that ends the two beams at 100 and 200.3 monitor
  units.\<close>

definition delivery_of_group_1 :: delivery_data where
  "delivery_of_group_1 =
     sample 50 0 (sample 100 0 (sample 150 90 (sample 200.3 90 DeliveryDataBase_empty)))"

text \<open>The same delivery followed by samples at gantry 180 and 270, far from the
  metersets of group 2.\<close>

definition delivery_over_all_angles :: delivery_data where
  "delivery_over_all_angles =
     sample 50 0 (sample 100 0 (sample 150 90 (sample 200.3 90
       (sample 210 180 (sample 220 270 DeliveryDataBase_empty)))))"

text \<open>A delivery at gantry 180 and 270 that ends the two beams at 250.3 and 375.2
  monitor units: within 0.5 of the targets of group 2, and with no sample near the
  angles of group 1.\<close>

definition delivery_of_group_2 :: delivery_data where
  "delivery_of_group_2 =
     sample 100 180 (sample 250.3 180 (sample 300 270 (sample 375.2 270
       DeliveryDataBase_empty)))"

section \<open>Facts about the numpy primitives\<close>

lemma length_np_diff: "length (np_diff xs) = length xs - 1"
  by (induction xs rule: np_diff.induct) simp_all

lemma nth_np_diff: "Suc i < length xs \<Longrightarrow> np_diff xs ! i = xs ! Suc i - xs ! i"
proof (induction xs arbitrary: i rule: np_diff.induct)
  case (1 x y zs)
  then show ?case by (cases i) simp_all
qed simp_all

lemma np_diff_eq_Nil: "np_diff xs = [] \<longleftrightarrow> length xs < 2"
  by (induction xs rule: np_diff.induct) simp_all

lemma fold_min_Min: "fold min xs (x::real) = Min (set (x # xs))"
  by (rule Min.set_eq_fold [symmetric])

lemma fold_max_Max: "fold max xs (x::real) = Max (set (x # xs))"
  by (rule Max.set_eq_fold [symmetric])

lemma np_min_Inr: "xs \<noteq> [] \<Longrightarrow> np_min xs = Inr (Min (set xs))"
  by (cases xs) (simp_all add: fold_min_Min del: set_simps)

lemma np_max_Inr: "xs \<noteq> [] \<Longrightarrow> np_max xs = Inr (Max (set xs))"
  by (cases xs) (simp_all add: fold_max_Max del: set_simps)

lemma gantry_tol_short:
  "length gantry_angles < 2 \<Longrightarrow>
   gantry_tol_from_gantry_angles gantry_angles = Inl (ValueError zero_size_minimum)"
proof -
  assume "length gantry_angles < 2"
  then have "np_diff (sort gantry_angles) = []"
    by (simp add: np_diff_eq_Nil)
  then show ?thesis
    by (simp add: gantry_tol_from_gantry_angles_def)
qed

lemma gantry_tol_long:
  assumes "2 \<le> length gantry_angles"
  shows "gantry_tol_from_gantry_angles gantry_angles =
         Inr (min (Min (set (np_diff (sort gantry_angles))) / 2 - 0.1) 3)"
proof -
  from assms have "np_diff (sort gantry_angles) \<noteq> []"
    by (simp add: np_diff_eq_Nil)
  then have "np_min (np_diff (sort gantry_angles)) =
             Inr (Min (set (np_diff (sort gantry_angles))))"
    by (rule np_min_Inr)
  then show ?thesis
    by (simp add: gantry_tol_from_gantry_angles_def)
qed

lemma Min_np_diff_attained:
  assumes "2 \<le> length xs"
  shows "\<exists>i. Suc i < length xs \<and> Min (set (np_diff xs)) = xs ! Suc i - xs ! i"
proof -
  from assms have ne: "np_diff xs \<noteq> []"
    by (simp add: np_diff_eq_Nil)
  then have "Min (set (np_diff xs)) \<in> set (np_diff xs)"
    by (intro Min_in) simp_all
  then obtain i where i: "i < length (np_diff xs)" "np_diff xs ! i = Min (set (np_diff xs))"
    by (auto simp: in_set_conv_nth)
  from i(1) have "Suc i < length xs"
    by (simp add: length_np_diff)
  with i(2) show ?thesis
    by (auto simp: nth_np_diff)
qed

lemma Min_np_diff_least:
  assumes "Suc i < length xs"
  shows "Min (set (np_diff xs)) \<le> xs ! Suc i - xs ! i"
proof -
  from assms have "i < length (np_diff xs)"
    by (simp add: length_np_diff)
  then have "np_diff xs ! i \<in> set (np_diff xs)"
    by (rule nth_mem)
  then have "Min (set (np_diff xs)) \<le> np_diff xs ! i"
    by (intro Min_le) simp_all
  with assms show ?thesis
    by (simp add: nth_np_diff)
qed

section \<open>Facts about the coordinate conversion\<close>

lemma and_then_simps [simp]:
  "and_then (Inl e) f = Inl e"
  "and_then (Inr x) f = f x"
  by (simp_all add: and_then_def)

lemma put_mask_scalar_same_length:
  "length sel = length arr \<Longrightarrow>
   put_mask_scalar arr sel v = Inr (map2 (\<lambda>a m. if m then v else a) arr sel)"
  by (simp add: put_mask_scalar_def)

lemma length_np_diff_append:
  "angle \<noteq> [] \<Longrightarrow> length (np_diff angle @ [0]) = length angle"
  by (cases angle) (simp_all add: length_np_diff)

lemma nth_np_diff_append:
  assumes "i < length angle"
  shows "(np_diff angle @ [0]) ! i =
         (if Suc i < length angle then angle ! Suc i - angle ! i else 0)"
proof (cases "Suc i < length angle")
  case True
  then have "i < length (np_diff angle)"
    by (simp add: length_np_diff)
  with True show ?thesis
    by (simp add: nth_append nth_np_diff)
next
  case False
  with assms have "i = length (np_diff angle)"
    by (simp add: length_np_diff)
  with False show ?thesis
    by (simp add: nth_append)
qed

lemma three_assignments:
  "length movement = length diff \<Longrightarrow>
   map2 (\<lambda>a m. if m then ''NONE'' else a)
     (map2 (\<lambda>a m. if m then ''CC'' else a)
        (map2 (\<lambda>a m. if m then ''CW'' else a) movement (map (\<lambda>d. d > 0) diff))
        (map (\<lambda>d. d < 0) diff))
     (map (\<lambda>d. d = 0) diff) = map direction (diff :: real list)"
  by (induction movement diff rule: list_induct2) (simp_all add: direction_def)

lemma angle_movement_nonempty:
  assumes "angle \<noteq> []"
  shows "angle_movement garbage angle = Inr (map direction (np_diff angle @ [0]))"
proof -
  let ?diff = "np_diff angle @ [0]"
  let ?m0 = "map garbage [0..<length angle]"
  have len: "length ?m0 = length ?diff"
    using assms by (simp add: length_np_diff_append del: length_append)
  have "angle_movement garbage angle =
        Inr (map2 (\<lambda>a m. if m then ''NONE'' else a)
          (map2 (\<lambda>a m. if m then ''CC'' else a)
             (map2 (\<lambda>a m. if m then ''CW'' else a) ?m0 (map (\<lambda>d. d > 0) ?diff))
             (map (\<lambda>d. d < 0) ?diff))
          (map (\<lambda>d. d = 0) ?diff))"
    using len unfolding angle_movement_def put_mask_scalar_def Let_def
    by (simp del: map_append)
  also have "\<dots> = Inr (map direction ?diff)"
    using len by (simp only: three_assignments)
  finally show ?thesis .
qed

lemma angle_movement_empty:
  "angle_movement garbage [] = Inl (IndexError boolean_index_mismatch)"
  by (simp add: angle_movement_def put_mask_scalar_def)

lemma put_mask_get_mask_map:
  "put_mask arr (map p arr) (map f (get_mask arr (map p arr))) =
   map (\<lambda>a. if p a then f a else a) arr"
  by (induction arr) simp_all

lemma add_360_where_negative_eq:
  "add_360_where_negative angle = map (\<lambda>a. if a < 0 then a + 360 else a) angle"
  by (simp add: add_360_where_negative_def put_mask_get_mask_map)

lemma jaw_dd2dcm_eq: "jaw_dd2dcm str jaw = map (\<lambda>(a, b). (str (- b), str a)) jaw"
  by (simp add: jaw_dd2dcm_def negate_col1_def astype_def set_col0_def set_col1_def
      col0_def col1_def Let_def zip_map_map zip_same_conv_map case_prod_unfold
      zip_map1 zip_map2)

lemma mlc_loop_eq:
  "mlc_loop str acc mlc =
   acc @ map (\<lambda>cp. map str (map uminus (rev (col1 cp)) @ rev (col0 cp))) mlc"
  by (induction mlc arbitrary: acc) simp_all

lemma mlc_dd2dcm_eq:
  "mlc_dd2dcm str mlc =
   map (\<lambda>control_point.
          map str (map uminus (rev (map snd control_point))) @
          map str (rev (map fst control_point))) mlc"
  by (simp add: mlc_dd2dcm_def mlc_loop_eq col0_def col1_def)

lemma reversed_column_two_wide:
  assumes "list_all (\<lambda>row. length row = 2) control_point"
  shows "reversed_column 0 control_point = Inr (rev (map (\<lambda>row. row ! 0) control_point))"
    and "reversed_column 1 control_point = Inr (rev (map (\<lambda>row. row ! 1) control_point))"
proof -
  from assms have "list_all (\<lambda>row. 0 < length row) control_point"
    and "list_all (\<lambda>row. 1 < length row) control_point"
    by (auto simp: list_all_iff)
  then show "reversed_column 0 control_point = Inr (rev (map (\<lambda>row. row ! 0) control_point))"
    and "reversed_column 1 control_point = Inr (rev (map (\<lambda>row. row ! 1) control_point))"
    by (simp_all add: reversed_column_def rev_map)
qed

lemma mlc_rows_loop_eq:
  "list_all (list_all (\<lambda>row. length row = 2)) mlc \<Longrightarrow>
   mlc_rows_loop str acc mlc =
   Inr (acc @ map (\<lambda>control_point.
                    map str (map uminus (rev (map (\<lambda>row. row ! 1) control_point))) @
                    map str (rev (map (\<lambda>row. row ! 0) control_point))) mlc)"
proof (induction mlc arbitrary: acc)
  case Nil
  then show ?case by simp
next
  case (Cons control_point rest)
  from Cons.prems have cp: "list_all (\<lambda>row. length row = 2) control_point"
    and rest: "list_all (list_all (\<lambda>row. length row = 2)) rest"
    by simp_all
  from reversed_column_two_wide [OF cp] Cons.IH [OF rest] show ?case
    by simp
qed

text \<open>On arrays of shape (L, 2) the two models of \<open>mlc_dd2dcm\<close> agree.\<close>

lemma mlc_dd2dcm_rows_of_pairs:
  "mlc_dd2dcm_rows str (map (map (\<lambda>p. [fst p, snd p])) mlc) = Inr (mlc_dd2dcm str mlc)"
proof -
  have "list_all (list_all (\<lambda>row. length row = 2)) (map (map (\<lambda>p. [fst p, snd p])) mlc)"
    by (simp add: list_all_iff)
  then show ?thesis
    by (simp add: mlc_dd2dcm_rows_def mlc_rows_loop_eq mlc_dd2dcm_eq comp_def)
qed

section \<open>Facts about array objects\<close>

lemma alloc_frame:
  "alloc h v = (p, h') \<Longrightarrow> q < next_free h \<Longrightarrow> cells h' q = cells h q"
  by (auto simp: alloc_def)

lemma np_array_frame:
  "np_array copy h x = (p, h') \<Longrightarrow> q < next_free h \<Longrightarrow> cells h' q = cells h q"
  by (auto simp: np_array_def alloc_def split: arg.splits if_splits)

lemma np_array_contents:
  "np_array copy h x = (p, h') \<Longrightarrow> cells h' p = read_arg h x"
  by (auto simp: np_array_def alloc_def read_arg_def split: arg.splits if_splits)

lemma np_array_fresh:
  "np_array True h x = (p, h') \<Longrightarrow> p = next_free h"
  by (auto simp: np_array_def alloc_def split: arg.splits)

text \<open>The results on array objects are those of the functions on the contents.\<close>

lemma angle_dd2dcm_heap_result:
  "fst (angle_dd2dcm_heap str garbage h angle) = angle_dd2dcm str garbage (read_arg h angle)"
proof (cases "np_array False h angle")
  case (Pair p h')
  then have "cells h' p = read_arg h angle"
    by (rule np_array_contents)
  with Pair show ?thesis
    by (simp add: angle_dd2dcm_heap_def angle_dd2dcm_def store_def split: sum.splits)
qed

lemma jaw_dd2dcm_heap_result:
  "jaw \<noteq> PySeq [] \<Longrightarrow>
   fst (jaw_dd2dcm_heap str h jaw) = Inr (jaw_dd2dcm str (read_arg h jaw))"
proof (cases "np_array True h jaw")
  case (Pair p h')
  assume "jaw \<noteq> PySeq []"
  moreover from Pair have "cells h' p = read_arg h jaw"
    by (rule np_array_contents)
  ultimately show ?thesis
    using Pair by (simp add: jaw_dd2dcm_heap_def jaw_dd2dcm_def store_def Let_def)
qed

lemma mlc_dd2dcm_heap_result:
  "fst (mlc_dd2dcm_heap str h mlc) = mlc_dd2dcm str (read_arg h mlc)"
proof (cases "np_array False h mlc")
  case (Pair p h')
  then have "cells h' p = read_arg h mlc"
    by (rule np_array_contents)
  with Pair show ?thesis
    by (simp add: mlc_dd2dcm_heap_def mlc_dd2dcm_def)
qed

text \<open>\<open>jaw_dd2dcm\<close> and \<open>mlc_dd2dcm\<close> leave every array of the caller as it was.\<close>

lemma jaw_dd2dcm_heap_frame:
  assumes "q < next_free h"
  shows "cells (snd (jaw_dd2dcm_heap str h jaw)) q = cells h q"
proof (cases "np_array True h jaw")
  case (Pair p h')
  then have "p = next_free h"
    by (rule np_array_fresh)
  with assms have "q \<noteq> p"
    by simp
  moreover from Pair assms have "cells h' q = cells h q"
    by (rule np_array_frame)
  ultimately show ?thesis
    using Pair by (simp add: jaw_dd2dcm_heap_def store_def Let_def)
qed

lemma mlc_dd2dcm_heap_frame:
  assumes "q < next_free h"
  shows "cells (snd (mlc_dd2dcm_heap str h mlc)) q = cells h q"
proof (cases "np_array False h mlc")
  case (Pair p h')
  from Pair assms have "cells h' q = cells h q"
    by (rule np_array_frame)
  with Pair show ?thesis
    by (simp add: mlc_dd2dcm_heap_def)
qed

text \<open>\<open>angle_dd2dcm\<close> writes the normalised angles into the array it was given.\<close>

lemma angle_dd2dcm_heap_writes_argument:
  assumes "cells h p \<noteq> []"
  shows "cells (snd (angle_dd2dcm_heap str garbage h (NdArray p))) p =
         add_360_where_negative (cells h p)"
  using assms
  by (simp add: angle_dd2dcm_heap_def read_arg_def angle_movement_nonempty np_array_def
      store_def del: map_append)

lemma angle_dd2dcm_heap_frame_others:
  assumes "q < next_free h" and "angle \<noteq> NdArray q"
  shows "cells (snd (angle_dd2dcm_heap str garbage h angle)) q = cells h q"
  using assms
  by (cases angle)
    (auto simp: angle_dd2dcm_heap_def np_array_def alloc_def store_def
      split: sum.splits)

section \<open>Facts about the resolver\<close>

lemma map_error_fails:
  "x \<in> set xs \<Longrightarrow> f x = Inl e \<Longrightarrow> \<exists>e'. map_error f xs = Inl e'"
proof (induction xs)
  case Nil
  then show ?case by simp
next
  case (Cons y ys)
  show ?case
  proof (cases "f y")
    case (Inl a)
    then show ?thesis by simp
  next
    case (Inr b)
    with Cons show ?thesis
      by (cases "x = y") auto
  qed
qed

lemma map_error_Inl_source:
  "map_error f xs = Inl e \<Longrightarrow> \<exists>x\<in>set xs. f x = Inl e"
proof (induction xs)
  case Nil
  then show ?case by simp
next
  case (Cons y ys)
  then show ?case
    by (cases "f y"; cases "map_error f ys") auto
qed

lemma maximum_deviation_absent:
  "maximum_deviation (dicom_metersets, []) =
   Inl (ValueError (if length dicom_metersets \<le> 1 then zero_size_maximum
                    else operands_could_not_be_broadcast))"
proof (cases dicom_metersets)
  case Nil
  then show ?thesis
    by (simp add: maximum_deviation_def np_subtract_def)
next
  case (Cons m ms)
  then show ?thesis
    by (cases ms) (simp_all add: maximum_deviation_def np_subtract_def)
qed

lemma maximum_deviation_errors:
  assumes "maximum_deviation p = Inl e"
  shows "e = ValueError zero_size_maximum \<or> e = ValueError operands_could_not_be_broadcast"
proof (cases "np_subtract (fst p) (snd p)")
  case (Inl a)
  then have "a = ValueError operands_could_not_be_broadcast"
    by (auto simp: np_subtract_def split: if_splits)
  with Inl assms show ?thesis
    by (simp add: maximum_deviation_def)
next
  case (Inr diff)
  with assms have "np_max (map abs diff) = Inl e"
    by (simp add: maximum_deviation_def)
  then show ?thesis
    by (cases diff) simp_all
qed

lemma deviations_abort_when_absent:
  assumes "(dicom_metersets, []) \<in> set ps"
  shows "map_error maximum_deviation ps = Inl (ValueError zero_size_maximum) \<or>
         map_error maximum_deviation ps = Inl (ValueError operands_could_not_be_broadcast)"
proof -
  from map_error_fails [of "(dicom_metersets, [])" ps maximum_deviation,
      OF assms maximum_deviation_absent]
  obtain e where e: "map_error maximum_deviation ps = Inl e" ..
  from map_error_Inl_source [OF e]
  obtain p where "maximum_deviation p = Inl e" by (elim bexE)
  then have "e = ValueError zero_size_maximum \<or> e = ValueError operands_could_not_be_broadcast"
    by (rule maximum_deviation_errors)
  with e show ?thesis
    by auto
qed

lemma mask_or_empty_swallows_assertion:
  "get_all_masked_delivery_data env delivery_data gantry_angles tol True = Inl (AssertionError m) \<Longrightarrow>
   mask_or_empty env delivery_data (gantry_angles, tol) = Inr (Whole DeliveryDataBase_empty)"
  by (simp add: mask_or_empty_def)

lemma np_sum_simps:
  "np_sum [] = 0"
  "np_sum (b # bs) = (if b then Suc (np_sum bs) else np_sum bs)"
  by (simp_all add: np_sum_def)

lemma get_mask_none:
  "length ns = length ds \<Longrightarrow> np_sum (map p ds) = 0 \<Longrightarrow>
   get_mask ns (map p ds) = [] \<and> (\<forall>j<length ds. \<not> p (ds ! j))"
proof (induction ns ds rule: list_induct2)
  case Nil
  then show ?case by simp
next
  case (Cons n ns d ds)
  from Cons.prems have d: "\<not> p d" and rest: "np_sum (map p ds) = 0"
    by (simp_all add: np_sum_simps split: if_splits)
  from Cons.IH [OF rest] d show ?case
    by (simp add: All_less_Suc2)
qed

lemma get_mask_single:
  "length ns = length ds \<Longrightarrow> np_sum (map p ds) = 1 \<Longrightarrow>
   \<exists>i<length ds. p (ds ! i) \<and> (\<forall>j<length ds. p (ds ! j) \<longrightarrow> j = i) \<and>
     get_mask ns (map p ds) = [ns ! i]"
proof (induction ns ds rule: list_induct2)
  case Nil
  then show ?case by (simp add: np_sum_simps)
next
  case (Cons n ns d ds)
  show ?case
  proof (cases "p d")
    case True
    with Cons.prems have "np_sum (map p ds) = 0"
      by (simp add: np_sum_simps)
    from get_mask_none [OF Cons.hyps this]
    have none: "get_mask ns (map p ds) = []" "\<forall>j<length ds. \<not> p (ds ! j)"
      by simp_all
    have "0 < length (d # ds) \<and> p ((d # ds) ! 0) \<and>
          (\<forall>j<length (d # ds). p ((d # ds) ! j) \<longrightarrow> j = 0) \<and>
          get_mask (n # ns) (map p (d # ds)) = [(n # ns) ! 0]"
      using True none by (simp add: All_less_Suc2)
    then show ?thesis
      by (rule_tac x = 0 in exI)
  next
    case False
    with Cons.prems have "np_sum (map p ds) = 1"
      by (simp add: np_sum_simps)
    from Cons.IH [OF this] obtain i where i: "i < length ds" "p (ds ! i)"
      "\<forall>j<length ds. p (ds ! j) \<longrightarrow> j = i" "get_mask ns (map p ds) = [ns ! i]"
      by (elim exE conjE)
    have unique: "\<forall>j<length (d # ds). p ((d # ds) ! j) \<longrightarrow> j = Suc i"
    proof (intro allI impI)
      fix j
      assume j: "j < length (d # ds)" "p ((d # ds) ! j)"
      show "j = Suc i"
      proof (cases j)
        case 0
        with j(2) False show ?thesis by simp
      next
        case (Suc k)
        with j have "k < length ds" "p (ds ! k)"
          by simp_all
        with i(3) have "k = i"
          by blast
        with Suc show ?thesis by simp
      qed
    qed
    have "Suc i < length (d # ds) \<and> p ((d # ds) ! Suc i) \<and>
          get_mask (n # ns) (map p (d # ds)) = [(n # ns) ! Suc i]"
      using False i(1,2,4) by simp
    with unique show ?thesis
      by blast
  qed
qed

text \<open>The three outcomes of the choice among the candidates.\<close>

lemma choose_within_tol_none:
  "np_sum (map (\<lambda>d. d \<le> meterset_tol) maximum_deviations) = 0 \<Longrightarrow>
   choose_within_tol fraction_group_numbers maximum_deviations meterset_tol =
     Inl (ValueError not_found_message)"
  by (simp add: choose_within_tol_def)

lemma choose_within_tol_many:
  "1 < np_sum (map (\<lambda>d. d \<le> meterset_tol) maximum_deviations) \<Longrightarrow>
   choose_within_tol fraction_group_numbers maximum_deviations meterset_tol =
     Inl (ValueError ambiguous_message)"
  by (simp add: choose_within_tol_def)

lemma choose_within_tol_one:
  assumes "length fraction_group_numbers = length maximum_deviations"
    and "np_sum (map (\<lambda>d. d \<le> meterset_tol) maximum_deviations) = 1"
  shows "\<exists>i<length maximum_deviations.
           maximum_deviations ! i \<le> meterset_tol \<and>
           (\<forall>j<length maximum_deviations. maximum_deviations ! j \<le> meterset_tol \<longrightarrow> j = i) \<and>
           choose_within_tol fraction_group_numbers maximum_deviations meterset_tol =
             Inr (NpArray [fraction_group_numbers ! i])"
proof -
  let ?p = "\<lambda>d. d \<le> meterset_tol"
  from get_mask_single [OF assms]
  obtain i where i: "i < length maximum_deviations" "?p (maximum_deviations ! i)"
    "\<forall>j<length maximum_deviations. ?p (maximum_deviations ! j) \<longrightarrow> j = i"
    "get_mask fraction_group_numbers (map ?p maximum_deviations) =
       [fraction_group_numbers ! i]"
    by blast
  have "choose_within_tol fraction_group_numbers maximum_deviations meterset_tol =
        Inr (NpArray [fraction_group_numbers ! i])"
    using assms(2) i(4) by (simp add: choose_within_tol_def)
  with i(1,2,3) show ?thesis
    by blast
qed

lemma choose_within_tol_never_scalar:
  "choose_within_tol fraction_group_numbers maximum_deviations meterset_tol \<noteq> Inr (Scalar n)"
  by (simp add: choose_within_tol_def Let_def)

lemma determine_single_group:
  "FractionGroupSequence env dicom_template = [g] \<Longrightarrow>
   determine_fraction_group_number env delivery_data dicom_template gantry_tol meterset_tol =
     Inr (Scalar (FractionGroupNumber env g))"
  by (simp add: determine_fraction_group_number_def)

text \<open>\<open>delivery_data_to_dicom\<close> hands \<open>None\<close> to \<open>convert_to_one_fraction_group\<close>.\<close>

lemma delivery_data_to_dicom_None_not_resolved:
  "convert_to_one_fraction_group env dicom_template PyNone = Inl e \<Longrightarrow>
   delivery_data_to_dicom env delivery_data dicom_template PyNone = Inl e"
  by (simp add: delivery_data_to_dicom_def)

text \<open>Unfolding the concrete plan and the source's functions on concrete inputs.\<close>

lemmas plan_defs =
  plan_collaborators_def plan_fraction_group_index_def plan_beam_sequence_and_meterset_def
  plan_convert_to_one_fraction_group_def plan_gantry_angles_def plan_all_masked_def
  mask_for_beam_def apply_mask_def plan_metersets_def plan_build_control_points_def
  plan_replace_fraction_group_def plan_replace_beam_sequence_def plan_merge_def
  two_group_template_def one_group_template_def sample_def delivery_of_group_1_def
  delivery_over_all_angles_def delivery_of_group_2_def DeliveryDataBase_empty_def

lemmas source_defs =
  determine_fraction_group_number_def delivery_data_to_dicom_def
  delivery_data_to_dicom_single_beam_def coordinate_convert_delivery_data_def
  mask_or_empty_def maximum_deviation_def choose_within_tol_def
  gantry_tol_from_gantry_angles_def np_subtract_def np_sum_def py_index_def py_last_def

section \<open>Claims\<close>

text \<open>
  C10. \<open>gantry_tol_from_gantry_angles\<close> returns a tolerance only for a template angle list
  of length at least two: on every list with fewer than two angles the minimum over the
  empty array of neighbour differences raises \<open>ValueError\<close>, and on every list with two
  or more angles a tolerance is returned.
\<close>

theorem gantry_tol_defined_iff_two_angles:
  "(length gantry_angles < 2 \<longrightarrow>
      gantry_tol_from_gantry_angles gantry_angles = Inl (ValueError zero_size_minimum)) \<and>
   (2 \<le> length gantry_angles \<longrightarrow>
      (\<exists>tol. gantry_tol_from_gantry_angles gantry_angles = Inr tol))"
  by (simp add: gantry_tol_short gantry_tol_long)

theorem gantry_tol_defined_iff_two_angles_witness:
  "length [90::real] < 2 \<and>
   gantry_tol_from_gantry_angles [90] = Inl (ValueError zero_size_minimum) \<and>
   2 \<le> length [0::real, 90] \<and>
   (\<exists>tol. gantry_tol_from_gantry_angles [0, 90] = Inr tol)"
  using gantry_tol_defined_iff_two_angles [of "[90]"]
    gantry_tol_defined_iff_two_angles [of "[0, 90]"]
  by simp

text \<open>
  C4 (amended). For every list of at least two template gantry angles, with \<open>d\<close> the
  smallest difference between neighbours of the sorted list,
  \<open>gantry_tol_from_gantry_angles\<close> returns exactly \<open>min (d / 2 - 0.1) 3\<close>; this
  tolerance is non-negative exactly when \<open>d \<ge> 0.2\<close>.
\<close>

theorem gantry_tol_is_min_half_spacing:
  assumes "2 \<le> length gantry_angles"
  shows "\<exists>d. (\<exists>i. Suc i < length gantry_angles \<and>
                 d = sort gantry_angles ! Suc i - sort gantry_angles ! i) \<and>
             (\<forall>i. Suc i < length gantry_angles \<longrightarrow>
                 d \<le> sort gantry_angles ! Suc i - sort gantry_angles ! i) \<and>
             gantry_tol_from_gantry_angles gantry_angles = Inr (min (d / 2 - 0.1) 3) \<and>
             (0 \<le> min (d / 2 - 0.1) 3 \<longleftrightarrow> 0.2 \<le> d)"
proof -
  let ?s = "sort gantry_angles"
  let ?d = "Min (set (np_diff ?s))"
  from assms have len: "2 \<le> length ?s"
    by simp
  have attained: "\<exists>i. Suc i < length gantry_angles \<and> ?d = ?s ! Suc i - ?s ! i"
    using Min_np_diff_attained [OF len] by simp
  have least: "\<forall>i. Suc i < length gantry_angles \<longrightarrow> ?d \<le> ?s ! Suc i - ?s ! i"
    using Min_np_diff_least [of _ ?s] by simp
  have val: "gantry_tol_from_gantry_angles gantry_angles = Inr (min (?d / 2 - 0.1) 3)"
    using assms by (rule gantry_tol_long)
  have sign: "0 \<le> min (?d / 2 - 0.1) 3 \<longleftrightarrow> 0.2 \<le> ?d"
    by auto
  from attained least val sign show ?thesis
    by blast
qed

theorem gantry_tol_is_min_half_spacing_witness:
  "2 \<le> length [0::real, 90] \<and> gantry_tol_from_gantry_angles [0, 90] = Inr 3"
proof -
  have len: "2 \<le> length [0::real, 90]"
    by simp
  from gantry_tol_is_min_half_spacing [OF len]
  obtain d i where i: "Suc i < length [0::real, 90]"
    and d: "d = sort [0::real, 90] ! Suc i - sort [0::real, 90] ! i"
    and v: "gantry_tol_from_gantry_angles [0, 90] = Inr (min (d / 2 - 0.1) 3)"
    by blast
  from i have "i = 0"
    by simp
  with d have "d = 90"
    by simp
  with v len show ?thesis
    by simp
qed

text \<open>
  The claim as stated promises a non-negative tolerance for every non-degenerate
  spacing; the two distinct angles 0 and 0.1 have spacing 0.1 and tolerance -0.05.
\<close>

theorem gantry_tol_negative_counterexample:
  "np_min (np_diff (sort [0, 1 / 10])) = Inr (1 / 10) \<and>
   gantry_tol_from_gantry_angles [0, 1 / 10] = Inr (- (1 / 20)) \<and>
   projr (gantry_tol_from_gantry_angles [0, 1 / 10]) < 0"
  by (simp add: gantry_tol_from_gantry_angles_def)

text \<open>
  C5. For every non-empty angle sequence, \<open>angle_dd2dcm\<close> returns one direction tag per
  sample: \<open>CW\<close> where the forward difference to the successor is positive, \<open>CC\<close> where
  it is negative, \<open>NONE\<close> where it is zero, and \<open>NONE\<close> for the last sample. The
  differences are those of the angles as passed in, before any negative angle is moved
  into [0, 360). (The empty sequence has no sample to tag: the call raises
  \<open>IndexError\<close>, see \<open>angle_movement_empty\<close>.)
\<close>

theorem angle_dd2dcm_direction_tags:
  assumes "angle \<noteq> []"
  shows "\<exists>converted_angle movement.
           angle_dd2dcm str garbage angle = Inr (converted_angle, movement) \<and>
           length movement = length angle \<and>
           (\<forall>i. Suc i < length angle \<longrightarrow>
              movement ! i =
                (if angle ! Suc i - angle ! i > 0 then ''CW''
                 else if angle ! Suc i - angle ! i < 0 then ''CC''
                 else ''NONE'')) \<and>
           movement ! (length angle - 1) = ''NONE''"
proof -
  let ?movement = "map direction (np_diff angle @ [0])"
  have len: "length ?movement = length angle"
    using assms by (simp add: length_np_diff_append del: length_append map_append)
  have res: "angle_dd2dcm str garbage angle =
             Inr (map str (add_360_where_negative angle), ?movement)"
    using assms by (simp add: angle_dd2dcm_def angle_movement_nonempty del: map_append)
  have inner: "?movement ! i = direction (angle ! Suc i - angle ! i)"
    if "Suc i < length angle" for i
  proof -
    from that have "i < length angle"
      by simp
    then have "(np_diff angle @ [0]) ! i = angle ! Suc i - angle ! i"
      using that by (simp add: nth_np_diff_append)
    moreover from \<open>i < length angle\<close> have "i < length (np_diff angle @ [0])"
      using assms by (simp add: length_np_diff_append del: length_append)
    ultimately show ?thesis
      by (simp del: map_append)
  qed
  have final: "?movement ! (length angle - 1) = ''NONE''"
  proof -
    from assms have a: "length angle - 1 < length angle"
      by simp
    from assms have b: "\<not> Suc (length angle - 1) < length angle"
      by simp
    from nth_np_diff_append [OF a] b have "(np_diff angle @ [0]) ! (length angle - 1) = 0"
      by simp
    moreover from assms have "length angle - 1 < length (np_diff angle @ [0])"
      by (simp add: length_np_diff_append del: length_append)
    ultimately show ?thesis
      by (simp add: direction_def del: map_append)
  qed
  from inner have "\<forall>i. Suc i < length angle \<longrightarrow>
      ?movement ! i =
        (if angle ! Suc i - angle ! i > 0 then ''CW''
         else if angle ! Suc i - angle ! i < 0 then ''CC''
         else ''NONE'')"
    by (simp add: direction_def)
  with res len final show ?thesis
    by blast
qed

theorem angle_dd2dcm_direction_tags_witness:
  "[- 10, 10, 10, 5 :: real] \<noteq> [] \<and>
   angle_dd2dcm id (\<lambda>i. ''?'') [- 10, 10, 10, 5] =
     Inr ([350, 10, 10, 5], [''CW'', ''NONE'', ''CC'', ''NONE''])"
  using angle_dd2dcm_direction_tags [of "[- 10, 10, 10, 5]" id "\<lambda>i. ''?''"]
  by (simp add: angle_dd2dcm_def angle_movement_nonempty add_360_where_negative_eq
      direction_def)

text \<open>
  C9. For every non-empty sequence of angles in [-180, 180), the angles that
  \<open>angle_dd2dcm\<close> returns are \<open>a\<close> where \<open>a \<ge> 0\<close> and \<open>a + 360\<close> where \<open>a < 0\<close>
  (rendered by \<open>str\<close>), and normalising the normalised values again leaves them as
  they are.
\<close>

theorem angle_normalisation_idempotent:
  assumes "angle \<noteq> []" and "\<forall>a\<in>set angle. - 180 \<le> a \<and> a < 180"
  shows "\<exists>normalised movement movement'.
           normalised = map (\<lambda>a. if 0 \<le> a then a else a + 360) angle \<and>
           angle_dd2dcm str garbage angle = Inr (map str normalised, movement) \<and>
           angle_dd2dcm id garbage normalised = Inr (normalised, movement')"
proof -
  let ?n = "map (\<lambda>a. if 0 \<le> a then a else a + 360) angle"
  have eq: "add_360_where_negative angle = ?n"
    by (simp add: add_360_where_negative_eq)
  have again: "add_360_where_negative ?n = ?n"
    using assms(2) by (auto simp: add_360_where_negative_eq)
  from assms(1) have ne: "?n \<noteq> []"
    by simp
  have first: "angle_dd2dcm str garbage angle =
               Inr (map str ?n, map direction (np_diff angle @ [0]))"
    using assms(1) eq by (simp add: angle_dd2dcm_def angle_movement_nonempty del: map_append)
  have second: "angle_dd2dcm id garbage ?n = Inr (?n, map direction (np_diff ?n @ [0]))"
    using ne again by (simp add: angle_dd2dcm_def angle_movement_nonempty del: map_append)
  from first second show ?thesis
    by blast
qed

theorem angle_normalisation_idempotent_witness:
  "[- 180, - 0.5, 0, 179.5 :: real] \<noteq> [] \<and>
   list_all (\<lambda>a. - 180 \<le> a \<and> a < 180) [- 180, - 0.5, 0, 179.5 :: real] \<and>
   (\<exists>movement. angle_dd2dcm id (\<lambda>i. ''?'') [- 180, - 0.5, 0, 179.5] =
      Inr ([180, 359.5, 0, 179.5], movement)) \<and>
   (\<exists>movement. angle_dd2dcm id (\<lambda>i. ''?'') [180, 359.5, 0, 179.5] =
      Inr ([180, 359.5, 0, 179.5], movement))"
  using angle_normalisation_idempotent [of "[- 180, - 0.5, 0, 179.5]" id "\<lambda>i. ''?''"]
  by simp

text \<open>
  C6 (amended). The jaw conversion sends the pair \<open>(a, b)\<close> to \<open>(- b, a)\<close>. Applied twice
  to the values it negates both coordinates and keeps their order, \<open>(a, b)\<close> to
  \<open>(- a, - b)\<close>; applied four times it returns the original pair.
\<close>

theorem jaw_dd2dcm_twice_negates_both:
  "jaw_dd2dcm str jaw = map (\<lambda>(a, b). (str (- b), str a)) jaw \<and>
   jaw_dd2dcm id (jaw_dd2dcm id jaw) = map (\<lambda>(a, b). (- a, - b)) jaw \<and>
   jaw_dd2dcm id (jaw_dd2dcm id (jaw_dd2dcm id (jaw_dd2dcm id jaw))) = jaw"
  by (simp add: jaw_dd2dcm_eq case_prod_unfold comp_def)

text \<open>
  The claim as stated (twice is the identity) fails on the single sample \<open>(1, 2)\<close>.
\<close>

theorem jaw_dd2dcm_twice_counterexample:
  "jaw_dd2dcm id [(1, 2)] = [(- 2, 1)] \<and>
   jaw_dd2dcm id (jaw_dd2dcm id [(1, 2)]) = [(- 1, - 2)] \<and>
   jaw_dd2dcm id (jaw_dd2dcm id [(1, 2)]) \<noteq> [(1, 2)]"
  by (simp add: jaw_dd2dcm_def negate_col1_def astype_def set_col0_def set_col1_def
      col0_def col1_def)

text \<open>
  C8 (amended). For every sequence of control points, each laid out as L leaf rows with
  two bank columns (row \<open>i\<close> holds the positions of leaf \<open>i\<close> in bank A, column 0, and
  in bank B, column 1), \<open>mlc_dd2dcm\<close> returns per control point the negated reverse of
  bank B followed by the reverse of bank A, rendered by \<open>str\<close>.
\<close>

theorem mlc_dd2dcm_reflection_leaf_rows:
  assumes "list_all (list_all (\<lambda>row. length row = 2)) mlc"
  shows "mlc_dd2dcm_rows str mlc =
         Inr (map (\<lambda>control_point.
                     map str (map uminus (rev (map (\<lambda>row. row ! 1) control_point))) @
                     map str (rev (map (\<lambda>row. row ! 0) control_point))) mlc)"
  using assms by (simp add: mlc_dd2dcm_rows_def mlc_rows_loop_eq)

theorem mlc_dd2dcm_reflection_leaf_rows_witness:
  "list_all (list_all (\<lambda>row. length row = 2)) [[[1, 10], [2, 20], [3, 30 :: real]]] \<and>
   mlc_dd2dcm_rows id [[[1, 10], [2, 20], [3, 30]]] = Inr [[- 30, - 20, - 10, 3, 2, 1]]"
  using mlc_dd2dcm_reflection_leaf_rows [of "[[[1, 10], [2, 20], [3, 30]]]" id]
  by simp

text \<open>
  The claim as stated takes the control point as two bank rows of L leaves. On the
  control point with bank row A \<open>[1, 2, 3]\<close> and bank row B \<open>[10, 20, 30]\<close> the source
  reverses the two rows and reads entries 1 and 0 of each: the result is
  \<open>[-20, -2, 10, 1]\<close>, not the negated reverse of B followed by the reverse of A.
\<close>

theorem mlc_dd2dcm_bank_rows_counterexample:
  "mlc_dd2dcm_rows id [[[1, 2, 3], [10, 20, 30]]] = Inr [[- 20, - 2, 10, 1]] \<and>
   mlc_dd2dcm_rows id [[[1, 2, 3], [10, 20, 30]]] \<noteq> Inr [[- 30, - 20, - 10, 3, 2, 1]]"
  by (simp add: mlc_dd2dcm_rows_def reversed_column_def)

text \<open>
  C7. The claim is that no conversion function changes the caller's data. For
  \<open>jaw_dd2dcm\<close> and \<open>mlc_dd2dcm\<close> that holds (\<open>jaw_dd2dcm_heap_frame\<close>,
  \<open>mlc_dd2dcm_heap_frame\<close>). \<open>angle_dd2dcm\<close>, called with the caller's array
  \<open>[-10, 10]\<close>, returns the angles \<open>[350, 10]\<close> and leaves the caller's array holding
  \<open>[350, 10]\<close>.
\<close>

theorem angle_dd2dcm_overwrites_callers_array:
  "cells caller_heap 0 = [- 10, 10] \<and>
   fst (angle_dd2dcm_heap id (\<lambda>i. ''?'') caller_heap (NdArray 0)) =
     Inr ([350, 10], [''CW'', ''NONE'']) \<and>
   cells (snd (angle_dd2dcm_heap id (\<lambda>i. ''?'') caller_heap (NdArray 0))) 0 = [350, 10]"
  by (simp add: caller_heap_def angle_dd2dcm_heap_def read_arg_def angle_movement_nonempty
      np_array_def store_def add_360_where_negative_eq direction_def)

text \<open>
  C1. The claim is that a call of \<open>delivery_data_to_dicom\<close> without a fraction group
  number gives the result of the call with the number that
  \<open>determine_fraction_group_number\<close> returns. On the template with fraction group 1
  alone and a delivery of that group, the resolver returns 1 and the call with 1 builds
  the plan, but the call with \<open>None\<close> hands \<open>None\<close> to \<open>convert_to_one_fraction_group\<close>
  and ends in its error (in general: \<open>delivery_data_to_dicom_None_not_resolved\<close>).
\<close>

theorem delivery_data_to_dicom_skips_resolver:
  "determine_fraction_group_number plan_collaborators delivery_of_group_1 one_group_template
     None 0.5 = Inr (Scalar 1) \<and>
   delivery_data_to_dicom plan_collaborators delivery_of_group_1 one_group_template (Scalar 1) =
     Inr \<lparr>groups = [\<lparr>number = 1, referenced = [(0, 100), (1, 200.3)]\<rparr>],
          beams = [[(50, 0), (100, 0)], [(150, 90), (200.3, 90)]]\<rparr> \<and>
   delivery_data_to_dicom plan_collaborators delivery_of_group_1 one_group_template PyNone =
     Inl (ValueError is_not_in_list)"
  by (simp add: plan_defs source_defs enumerate_eq_zip angle_dd2dcm_def angle_movement_nonempty
      add_360_where_negative_eq jaw_dd2dcm_eq mlc_dd2dcm_def direction_def)

text \<open>
  C2. The claim is that with exactly one candidate within the meterset tolerance the
  resolver returns that candidate's number as a single scalar. On the template with two
  fraction groups and a delivery within 0.5 of group 1 only, the resolver returns the
  one-element array \<open>[1]\<close>, not the number 1 (in general: \<open>choose_within_tol_one\<close>; the
  two failures are \<open>choose_within_tol_none\<close> and \<open>choose_within_tol_many\<close>, and the
  template with one group gives a scalar, \<open>determine_single_group\<close>).
\<close>

theorem determine_fraction_group_number_returns_array:
  "determine_fraction_group_number plan_collaborators delivery_over_all_angles
     two_group_template None 0.5 = Inr (NpArray [1]) \<and>
   determine_fraction_group_number plan_collaborators delivery_over_all_angles
     two_group_template None 0.5 \<noteq> Inr (Scalar 1)"
  by (simp add: plan_defs source_defs)

text \<open>
  C3. The claim is that a candidate whose masking fails counts as a non-match and the
  other candidates are still considered. On the template with two fraction groups and a
  delivery within 0.5 of group 2, with no sample near the angles of group 1, the masking
  failure of group 1 is caught and replaced by the empty delivery data, group 2 alone
  deviates by 0.3, and the resolver ends in numpy's \<open>ValueError\<close> from subtracting no
  metersets from the two of group 1 (in general: \<open>deviations_abort_when_absent\<close>).
\<close>

theorem masking_failure_aborts_resolution:
  "get_all_masked_delivery_data plan_collaborators delivery_of_group_2 [0, 90] 3 True =
     Inl (AssertionError no_matching_samples) \<and>
   mask_or_empty plan_collaborators delivery_of_group_2 ([0, 90], 3) =
     Inr (Whole DeliveryDataBase_empty) \<and>
   maximum_deviation ([250, 375], [250.3, 375.2]) = Inr 0.3 \<and>
   determine_fraction_group_number plan_collaborators delivery_of_group_2
     two_group_template None 0.5 = Inl (ValueError operands_could_not_be_broadcast)"
  by (simp add: plan_defs source_defs)

end
